theory Spec2Isabelle
  imports Main "HOL-Library.AList"
begin

section \<open>The model\<close>

text \<open>
  A shallow embedding of the asset-event pipeline: the retry core of the resolver pool,
  the dispatcher and the event scheduler.  Go's \<^verbatim>\<open>nil\<close> is \<open>None\<close>; a pointer
  into shared state is the key of the object in an explicit store; a call that can
  dereference \<^verbatim>\<open>nil\<close> has a \<open>Panic\<close> result.  Go's \<^verbatim>\<open>int\<close> is modelled by
  \<open>int\<close>.  Where the code computes with a value that a caller supplies (the priority of
  a dependency minus one, a number of milliseconds or of seconds as a duration) the
  result is reduced to 64 bits as Go reduces it; the counters start at zero and move by
  one, or by the number of events in the map.
\<close>
subsection \<open>Resolver pool: the retry core of PerformQuery\<close>

text \<open>
  \<^verbatim>\<open>src/plugins/support/resolvers.go\<close>, \<^verbatim>\<open>dnsQuery\<close>.  A DNS message is reduced to the
  two fields the function reads: the response code and the answer section.  The response
  codes are the constants of the DNS library (\<^verbatim>\<open>dns.RcodeSuccess = 0\<close>,
  \<^verbatim>\<open>dns.RcodeNameError = 3\<close>).
\<close>

record dns_msg =
  Rcode :: int
  Answer :: "string list"

definition RcodeSuccess :: int where
  "RcodeSuccess = 0"

definition RcodeNameError :: int where
  "RcodeNameError = 3"

text \<open>
  \<^verbatim>\<open>QueryBlocking\<close> performs network I/O.  Its two Go results \<^verbatim>\<open>(resp, err)\<close> are a pair
  of options (\<open>None\<close> is \<^verbatim>\<open>nil\<close>), and the pool is a function from the number of the
  query (counted from 0) to what that query returns.
\<close>

type_synonym query_result = "dns_msg option \<times> string option"

type_synonym resolvers = "nat \<Rightarrow> query_result"

text \<open>
  A Go call either returns or panics; \<^verbatim>\<open>resp.Rcode\<close> on a nil response that came
  with a nil error is a nil dereference.
\<close>

datatype 'a go_result = Panic | Returned 'a

text \<open>
  The loop \<^verbatim>\<open>for num := 0; num < attempts; num++\<close>.  The second component of the result
  is the number of calls of \<^verbatim>\<open>QueryBlocking\<close> made when the function stops.
\<close>

function dnsQuery_loop :: "resolvers \<Rightarrow> int \<Rightarrow> nat \<Rightarrow> query_result go_result \<times> nat" where
  "dnsQuery_loop r attempts num =
     (if int num < attempts then
        (case snd (r num) of
           Some err \<Rightarrow> dnsQuery_loop r attempts (Suc num)
         | None \<Rightarrow>
            (case fst (r num) of
               None \<Rightarrow> (Panic, Suc num)
             | Some resp \<Rightarrow>
                 if Rcode resp = RcodeNameError then
                   (Returned (None, Some ''name does not exist''), Suc num)
                 else if Rcode resp = RcodeSuccess then
                   (if length (Answer resp) = 0 then
                      (Returned (None, Some ''no record of this type''), Suc num)
                    else (Returned (Some resp, None), Suc num))
                 else dnsQuery_loop r attempts (Suc num)))
      else (Returned (None, None), num))"
  by pat_completeness auto
termination
  by (relation "measure (\<lambda>(r, attempts, num). nat (attempts - int num))") auto

declare dnsQuery_loop.simps [simp del]

definition dnsQuery :: "resolvers \<Rightarrow> int \<Rightarrow> query_result go_result \<times> nat" where
  "dnsQuery r attempts = dnsQuery_loop r attempts 0"

text \<open>\<^verbatim>\<open>PerformQuery\<close> calls \<^verbatim>\<open>dnsQuery(msg, trusted, 50)\<close>.\<close>

definition PerformQuery_dnsQuery :: "resolvers \<Rightarrow> query_result go_result \<times> nat" where
  "PerformQuery_dnsQuery r = dnsQuery r 50"

text \<open>
  An attempt that the loop passes over: the query returned an error, or it returned a
  response whose code is neither success nor NXDOMAIN.
\<close>

definition skipped :: "query_result \<Rightarrow> bool" where
  "skipped res = (case snd res of
      Some err \<Rightarrow> True
    | None \<Rightarrow>
       (case fst res of
          None \<Rightarrow> False
        | Some resp \<Rightarrow> Rcode resp \<noteq> RcodeNameError \<and> Rcode resp \<noteq> RcodeSuccess))"

definition network_error :: "query_result \<Rightarrow> bool" where
  "network_error res = (snd res \<noteq> None)"

text \<open>
  A pool for the examples: the first query fails on the network, the second is answered
  with SERVFAIL (code 2), every later one with NXDOMAIN.
\<close>

definition example_resolvers :: resolvers where
  "example_resolvers n =
     (if n = 0 then (None, Some ''i/o timeout'')
      else if n = 1 then (Some \<lparr>Rcode = 2, Answer = []\<rparr>, None)
      else (Some \<lparr>Rcode = 3, Answer = []\<rparr>, None))"

subsection \<open>Assets, the session cache and sessions\<close>

text \<open>
  An asset of the open asset model is a value with an asset type and a key; the asset
  database wraps it in a stored asset (\<^verbatim>\<open>dbt.Asset\<close>, whose field \<^verbatim>\<open>Asset\<close> is the
  asset itself).
\<close>

record oam_asset =
  AssetType :: string
  AssetKey :: string

record db_asset =
  ID :: string
  Asset :: oam_asset

text \<open>
  Modelled from the spec: the session cache is not among the sources.  The spec gives
  its contract: \<^verbatim>\<open>GetAsset(key)\<close> returns \<^verbatim>\<open>(asset, hit)\<close>, \<^verbatim>\<open>SetAsset(asset)\<close> is an
  idempotent insert, and \<^verbatim>\<open>SetAsset(a); GetAsset(a.Key)\<close> returns \<^verbatim>\<open>(a, hit = true)\<close>.  The
  cache is a finite map from assets to stored assets.
\<close>

type_synonym cache = "oam_asset \<rightharpoonup> db_asset"

definition GetAsset :: "cache \<Rightarrow> oam_asset \<Rightarrow> db_asset option \<times> bool" where
  "GetAsset c a = (c a, c a \<noteq> None)"

definition SetAsset :: "cache \<Rightarrow> db_asset \<Rightarrow> cache" where
  "SetAsset c p = (if c (Asset p) \<noteq> None then c else c(Asset p \<mapsto> p))"

text \<open>The counters of a session that the dispatcher writes.\<close>

record session_stats =
  WorkItemsTotal :: int
  WorkItemsCompleted :: int

record session =
  Cache :: cache
  Stats :: session_stats

subsection \<open>The dispatcher\<close>

text \<open>
  \<^verbatim>\<open>src/types/events.go\<close> and \<^verbatim>\<open>src/dispatcher/dispatcher.go\<close>.  An event points to its
  stored asset, its dispatcher and its session; the pointers to the dispatcher, to a
  session and to a queue are keys into the store \<open>world\<close>.
\<close>

record et_Event =
  ev_Name :: string
  ev_Asset :: "db_asset option"
  ev_Dispatcher :: "nat option"
  ev_Session :: "nat option"

record EventDataElement =
  ede_Event :: et_Event
  ede_Error :: "string option"
  ede_Queue :: "nat option"

definition NewEventDataElement :: "et_Event \<Rightarrow> EventDataElement option" where
  "NewEventDataElement e = Some \<lparr>ede_Event = e, ede_Error = None, ede_Queue = None\<rparr>"

text \<open>
  The pipeline of an asset type, as the dispatcher uses it: its handlers and its input
  queue.  The registry is an interface value of the dispatcher; \<^verbatim>\<open>GetPipeline\<close> has the
  two Go results \<^verbatim>\<open>(ap, err)\<close>.
\<close>

record AssetPipeline =
  ap_Handlers :: "string list"
  ap_Queue :: nat

type_synonym registry = "string \<Rightarrow> AssetPipeline option \<times> string option"

record dis =
  self :: nat
  reg :: registry
  completed :: nat

record world =
  sessions :: "nat \<Rightarrow> session"
  queues :: "nat \<Rightarrow> EventDataElement list"

definition queue_Append :: "world \<Rightarrow> nat \<Rightarrow> EventDataElement \<Rightarrow> world" where
  "queue_Append w n data = w\<lparr>queues := (queues w)(n := queues w n @ [data])\<rparr>"

definition cache_SetAsset :: "world \<Rightarrow> nat \<Rightarrow> db_asset \<Rightarrow> world" where
  "cache_SetAsset w sid p =
     w\<lparr>sessions := (sessions w)
          (sid := (sessions w sid)\<lparr>Cache := SetAsset (Cache (sessions w sid)) p\<rparr>)\<rparr>"

definition incr_WorkItemsTotal :: "world \<Rightarrow> nat \<Rightarrow> world" where
  "incr_WorkItemsTotal w sid =
     w\<lparr>sessions := (sessions w)
          (sid := (sessions w sid)
             \<lparr>Stats := (Stats (sessions w sid))
                \<lparr>WorkItemsTotal := WorkItemsTotal (Stats (sessions w sid)) + 1\<rparr>\<rparr>)\<rparr>"

definition incr_WorkItemsCompleted :: "world \<Rightarrow> nat \<Rightarrow> world" where
  "incr_WorkItemsCompleted w sid =
     w\<lparr>sessions := (sessions w)
          (sid := (sessions w sid)
             \<lparr>Stats := (Stats (sessions w sid))
                \<lparr>WorkItemsCompleted := WorkItemsCompleted (Stats (sessions w sid)) + 1\<rparr>\<rparr>)\<rparr>"

text \<open>
  \<^verbatim>\<open>DispatchEvent\<close>.  The result is the Go error (\<open>None\<close> is \<^verbatim>\<open>nil\<close>) and the store after
  the call.  The steps are those of the source, in its order: the nil check, the
  assignment of the dispatcher, the read of \<^verbatim>\<open>e.Asset.Asset\<close>, the cache lookup, the
  cache insertion, the pipeline lookup, and the enqueue with the counter.
\<close>

definition DispatchEvent :: "dis \<Rightarrow> world \<Rightarrow> et_Event option \<Rightarrow> string option go_result \<times> world" where
  "DispatchEvent d w eo =
     (case eo of
        None \<Rightarrow> (Returned (Some ''the event is nil''), w)
      | Some e0 \<Rightarrow>
          let e = e0\<lparr>ev_Dispatcher := Some (self d)\<rparr> in
          (case ev_Asset e of
             None \<Rightarrow> (Panic, w)
           | Some p \<Rightarrow>
               let a = Asset p in
               (case ev_Session e of
                  None \<Rightarrow> (Panic, w)
                | Some sid \<Rightarrow>
                    (case GetAsset (Cache (sessions w sid)) a of
                       (p', hit) \<Rightarrow>
                         if p' \<noteq> None \<and> hit then
                           (Returned (Some ''this event has been scheduled previously''), w)
                         else
                           let w1 = cache_SetAsset w sid p in
                           (case snd (reg d (AssetType a)) of
                              Some err \<Rightarrow> (Returned (Some err), w1)
                            | None \<Rightarrow>
                               (case fst (reg d (AssetType a)) of
                                  None \<Rightarrow> (Panic, w1)
                                | Some ap \<Rightarrow>
                                   (case NewEventDataElement e of
                                      None \<Rightarrow> (Returned None, w1)
                                    | Some data0 \<Rightarrow>
                                        let data = data0\<lparr>ede_Queue := Some (completed d)\<rparr>;
                                            w2 = queue_Append w1 (ap_Queue ap) data;
                                            w3 = incr_WorkItemsTotal w2 sid
                                        in (Returned None, w3))))))))"

text \<open>
  The completion side: \<^verbatim>\<open>completedCallback\<close> counts one completed work item in the
  session of the element's event, and \<^verbatim>\<open>collectEvents\<close> applies it to every element of
  the dispatcher's completion queue, emptying the queue.
\<close>

definition completedCallback :: "world \<Rightarrow> EventDataElement \<Rightarrow> world go_result" where
  "completedCallback w ede =
     (case ev_Session (ede_Event ede) of
        None \<Rightarrow> Panic
      | Some sid \<Rightarrow> Returned (incr_WorkItemsCompleted w sid))"

fun process_completed :: "world \<Rightarrow> EventDataElement list \<Rightarrow> world go_result" where
  "process_completed w [] = Returned w"
| "process_completed w (x # xs) =
     (case completedCallback w x of
        Panic \<Rightarrow> Panic
      | Returned w' \<Rightarrow> process_completed w' xs)"

definition collectEvents :: "dis \<Rightarrow> world \<Rightarrow> world go_result" where
  "collectEvents d w =
     process_completed (w\<lparr>queues := (queues w)(completed d := [])\<rparr>) (queues w (completed d))"

text \<open>Dispatching a list of events one after the other, whatever each call returns.\<close>

fun dispatch_all :: "dis \<Rightarrow> world \<Rightarrow> et_Event option list \<Rightarrow> world" where
  "dispatch_all d w [] = w"
| "dispatch_all d w (e # es) = dispatch_all d (snd (DispatchEvent d w e)) es"

text \<open>
  Concrete data for the examples: an FQDN asset, a store with one empty session and no
  queued element, a registry that knows no pipeline and returns an error, and a registry
  that returns, for every asset type, a pipeline without handlers whose input queue is
  queue 1.  The dispatcher's completion queue is queue 0.
\<close>

definition example_asset :: db_asset where
  "example_asset = \<lparr>ID = ''1'', Asset = \<lparr>AssetType = ''FQDN'', AssetKey = ''example.com''\<rparr>\<rparr>"

definition example_event :: et_Event where
  "example_event =
     \<lparr>ev_Name = ''example.com'', ev_Asset = Some example_asset, ev_Dispatcher = None,
      ev_Session = Some 0\<rparr>"

definition empty_session :: session where
  "empty_session =
     \<lparr>Cache = Map.empty, Stats = \<lparr>WorkItemsTotal = 0, WorkItemsCompleted = 0\<rparr>\<rparr>"

definition empty_world :: world where
  "empty_world = \<lparr>sessions = (\<lambda>_. empty_session), queues = (\<lambda>_. [])\<rparr>"

definition failing_registry :: registry where
  "failing_registry t = (None, Some ''no pipeline for this asset type'')"

definition empty_registry :: registry where
  "empty_registry t = (Some \<lparr>ap_Handlers = [], ap_Queue = 1\<rparr>, None)"

definition failing_dis :: dis where
  "failing_dis = \<lparr>self = 0, reg = failing_registry, completed = 0\<rparr>"

definition empty_dis :: dis where
  "empty_dis = \<lparr>self = 0, reg = empty_registry, completed = 0\<rparr>"

text \<open>
  What it means for a call that takes the store from \<open>w\<close> to \<open>w'\<close> to complete an event
  of session \<open>sid\<close>: the call put an element on the dispatcher's completion queue or
  counted a completed work item.
\<close>

definition completes_event :: "dis \<Rightarrow> world \<Rightarrow> world \<Rightarrow> nat \<Rightarrow> bool" where
  "completes_event d w w' sid =
     (\<not> (queues w' (completed d) = queues w (completed d) \<and>
         WorkItemsCompleted (Stats (sessions w' sid)) =
           WorkItemsCompleted (Stats (sessions w sid))))"

subsection \<open>The scheduler: events and state\<close>

text \<open>
  \<^verbatim>\<open>src/scheduler/scheduler.go\<close>.  A UUID is a number and the zero UUID is 0; the clock is
  an integer count of nanoseconds.  The declarations of the event, of its states and of
  the scheduler are not among the sources; the event has the fields that \<^verbatim>\<open>schedule\<close>
  copies, and the scheduler the fields that the functions read and write.

  Modelled from the spec: the event states are the six states the spec lists (and
  \<^verbatim>\<open>updateSchedulerStats\<close> counts), the event types are the five types the spec lists.
\<close>

type_synonym uuid = nat

definition zeroUUID :: uuid where
  "zeroUUID = 0"

datatype EventState =
    EventStateWaiting
  | EventStateProcessable
  | EventStateInProcess
  | EventStateDone
  | EventStateCancelled
  | EventStateError

datatype EventType =
    EventTypeUnknown
  | EventTypeAsset
  | EventTypeSystem
  | EventTypeCustom
  | EventTypeLog

datatype SchedulerState =
    SchedulerStateRunning
  | SchedulerStatePaused
  | SchedulerStateShutdown

record AssetData =
  OAMAsset :: oam_asset
  OAMType :: string

text \<open>
  The payload of an event is an interface value: nil, a pointer to asset data (which may
  itself be a nil pointer), or a value of another type.  An action is a closure; the
  scheduler only tests it against nil and binds a default one, so closures are told
  apart by a tag.
\<close>

datatype EventData = DataNil | DataAssetData "AssetData option" | DataOther string

datatype action = DefaultAction | UserAction nat

record Event =
  UUID :: uuid
  SessionID :: uuid
  Session :: "uuid option"
  Name :: string
  Timestamp :: int
  Type :: EventType
  State :: EventState
  DependOn :: "uuid list"
  Action :: "action option"
  Data :: EventData
  Priority :: int
  RepeatEvery :: int
  RepeatTimes :: int
  Timeout :: int
  Sched :: bool

record schedulerStats =
  TotalEventsReceived :: int
  TotalEventsDone :: int
  TotalEventsCancelled :: int
  TotalEventsInProcess :: int
  TotalEventsError :: int
  TotalEventsWaiting :: int
  TotalEventsProcessable :: int
  TotalEventsSystem :: int

text \<open>
  The events map is an association list with one entry per key: \<^verbatim>\<open>delete\<close> removes the
  key and an insertion appends the entry.  The queue holds copies of events.  The
  session manager maps a session id to the session, or to nil.
\<close>

record Scheduler =
  q :: "Event list"
  events :: "(uuid \<times> Event) list"
  stats :: schedulerStats
  CurrentRunningActions :: int
  state :: SchedulerState
  mgr :: "uuid \<Rightarrow> session option"

record ProcessConfig =
  ExitWhenEmpty :: bool
  CheckEvent :: bool
  ExecuteAction :: bool
  ReturnIfFound :: bool
  DebugLevel :: int
  ActionTimeout :: int
  MaxConcurrentActions :: int

definition NewScheduler :: "(uuid \<Rightarrow> session option) \<Rightarrow> Scheduler" where
  "NewScheduler m =
     \<lparr>q = [], events = [],
      stats = \<lparr>TotalEventsReceived = 0, TotalEventsDone = 0, TotalEventsCancelled = 0,
               TotalEventsInProcess = 0, TotalEventsError = 0, TotalEventsWaiting = 0,
               TotalEventsProcessable = 0, TotalEventsSystem = 0\<rparr>,
      CurrentRunningActions = 0, state = SchedulerStateRunning, mgr = m\<rparr>"

text \<open>
  The queue is the priority queue of an external library; the comments of the source
  say what it is to return.  \<^verbatim>\<open>Next\<close> returns the event with the highest priority in
  the queue, the first one among events of the same priority, and a higher priority is
  a larger value: what \<^verbatim>\<open>Schedule\<close> calls decreasing the priority of an event, to keep
  it from starving its dependency, is the assignment
  \<^verbatim>\<open>e.Priority = event.Priority - 1\<close>.  \<open>Next\<close> returns the element and the queue
  without it.  No property below depends on the order among events of the same
  priority: in the scenarios the queue never holds two of them when \<open>Next\<close> is called.
\<close>

definition AppendPriority :: "Event list \<Rightarrow> Event \<Rightarrow> Event list" where
  "AppendPriority qu e = qu @ [e]"

fun max_priority :: "Event list \<Rightarrow> int \<Rightarrow> int" where
  "max_priority [] m = m"
| "max_priority (e # es) m = max_priority es (max m (Priority e))"

fun take_first :: "int \<Rightarrow> Event list \<Rightarrow> (Event \<times> Event list) option" where
  "take_first p [] = None"
| "take_first p (e # es) =
     (if Priority e = p then Some (e, es)
      else (case take_first p es of
              None \<Rightarrow> None
            | Some (x, rest) \<Rightarrow> Some (x, e # rest)))"

definition Next :: "Event list \<Rightarrow> (Event \<times> Event list) option" where
  "Next qu = (case qu of [] \<Rightarrow> None | e # es \<Rightarrow> take_first (max_priority es (Priority e)) qu)"




definition wrap64 :: "int \<Rightarrow> int" where
  "wrap64 x = (x + 9223372036854775808) mod 18446744073709551616 - 9223372036854775808"

subsection \<open>The scheduler: counters and state changes\<close>

fun add_to_counter :: "EventState \<Rightarrow> int \<Rightarrow> schedulerStats \<Rightarrow> schedulerStats" where
  "add_to_counter EventStateCancelled k st =
     st\<lparr>TotalEventsCancelled := TotalEventsCancelled st + k\<rparr>"
| "add_to_counter EventStateDone k st = st\<lparr>TotalEventsDone := TotalEventsDone st + k\<rparr>"
| "add_to_counter EventStateError k st = st\<lparr>TotalEventsError := TotalEventsError st + k\<rparr>"
| "add_to_counter EventStateInProcess k st =
     st\<lparr>TotalEventsInProcess := TotalEventsInProcess st + k\<rparr>"
| "add_to_counter EventStateProcessable k st =
     st\<lparr>TotalEventsProcessable := TotalEventsProcessable st + k\<rparr>"
| "add_to_counter EventStateWaiting k st =
     st\<lparr>TotalEventsWaiting := TotalEventsWaiting st + k\<rparr>"

definition updateSchedulerStats :: "Scheduler \<Rightarrow> EventState \<Rightarrow> EventState \<Rightarrow> Scheduler" where
  "updateSchedulerStats s oldState newState =
     (if oldState \<noteq> newState then
        s\<lparr>stats := add_to_counter oldState (- 1) (add_to_counter newState 1 (stats s))\<rparr>
      else s)"

text \<open>The sum of the six state counters.\<close>

definition state_counters :: "schedulerStats \<Rightarrow> int" where
  "state_counters st =
     TotalEventsDone st + TotalEventsCancelled st + TotalEventsError st +
     TotalEventsInProcess st + TotalEventsWaiting st + TotalEventsProcessable st"

text \<open>Writing the state of the entry stored under a key (\<^verbatim>\<open>s.events[uuid].State = state\<close>).\<close>

fun set_entry_state :: "(uuid \<times> Event) list \<Rightarrow> uuid \<Rightarrow> EventState \<Rightarrow> (uuid \<times> Event) list" where
  "set_entry_state [] k st = []"
| "set_entry_state ((k', ev) # rest) k st =
     (if k' = k then (k', ev\<lparr>State := st\<rparr>) # rest
      else (k', ev) # set_entry_state rest k st)"

definition terminal_state :: "EventState \<Rightarrow> bool" where
  "terminal_state st =
     (st = EventStateDone \<or> st = EventStateCancelled \<or> st = EventStateError)"


text \<open>
  The package-level \<^verbatim>\<open>SetEventState(e, state)\<close>, which an action calls on its event.  It
  returns the event as the caller sees it afterwards.
\<close>

definition SetEventState :: "Scheduler \<Rightarrow> Event \<Rightarrow> EventState \<Rightarrow> Event \<times> Scheduler" where
  "SetEventState s e st =
     (if \<not> Sched e then (e, s)
      else
        let s0 = (if map_of (events s) (UUID e) = None then
                    s\<lparr>events := events s @ [(UUID e, e)]\<rparr>
                  else s);
            stored = (case map_of (events s) (UUID e) of None \<Rightarrow> e | Some ev \<Rightarrow> ev);
            s1 = (if terminal_state st \<and> State stored = EventStateInProcess then
                    s0\<lparr>CurrentRunningActions := CurrentRunningActions s0 - 1\<rparr>
                  else s0);
            oldState = State stored;
            s2 = s1\<lparr>events := set_entry_state (events s1) (UUID e) st\<rparr>
        in (e\<lparr>State := st\<rparr>, updateSchedulerStats s2 oldState st))"

subsection \<open>The scheduler: Schedule\<close>

definition setupEvent :: "uuid \<Rightarrow> int \<Rightarrow> Event \<Rightarrow> Event" where
  "setupEvent fresh now e =
     (let e1 = (if UUID e = zeroUUID then e\<lparr>UUID := fresh\<rparr> else e);
          e2 = e1\<lparr>Timestamp := now\<rparr>;
          e3 = (if RepeatTimes e2 < - 1 then e2\<lparr>RepeatTimes := - 1\<rparr> else e2)
      in (if RepeatEvery e3 < 0 then e3\<lparr>RepeatEvery := 0\<rparr> else e3))"

text \<open>
  The private \<^verbatim>\<open>schedule\<close>: the copy of the event, the default action, the replacement
  of the map entry and the append to the queue.  It returns a nil error on every path,
  so the model returns the scheduler only.
\<close>

definition eCopy :: "Event \<Rightarrow> Event" where
  "eCopy e =
     (let c = \<lparr>UUID = UUID e, SessionID = SessionID e, Session = Session e,
                Name = Name e, Timestamp = Timestamp e, Type = Type e,
                State = State e, DependOn = DependOn e, Action = Action e,
                Data = Data e, Priority = Priority e, RepeatEvery = RepeatEvery e,
                RepeatTimes = RepeatTimes e, Timeout = Timeout e, Sched = True\<rparr>
      in if Action c = None then c\<lparr>Action := Some DefaultAction\<rparr> else c)"

definition schedule :: "Scheduler \<Rightarrow> Event \<Rightarrow> Scheduler" where
  "schedule s e =
     s\<lparr>events := AList.delete (UUID e) (events s) @ [(UUID e, eCopy e)],
       q := AppendPriority (q s) (eCopy e)\<rparr>"

text \<open>
  The loop of \<^verbatim>\<open>Schedule\<close> over \<^verbatim>\<open>e.DependOn\<close>: it stops at the first dependency that
  is absent or not done, and for each done dependency before it whose priority is not
  above that of the event it sets the priority to the priority of the dependency minus
  one, a subtraction of 64 bits.
\<close>

fun depend_loop :: "(uuid \<times> Event) list \<Rightarrow> uuid list \<Rightarrow> Event \<Rightarrow> Event" where
  "depend_loop evs [] e = e"
| "depend_loop evs (dependUUID # rest) e =
     (case map_of evs dependUUID of
        None \<Rightarrow> e\<lparr>State := EventStateProcessable\<rparr>
      | Some event \<Rightarrow>
          if State event \<noteq> EventStateDone then e\<lparr>State := EventStateProcessable\<rparr>
          else depend_loop evs rest
                 (if Priority event \<le> Priority e then
                    e\<lparr>Priority := wrap64 (Priority event - 1)\<rparr>
                  else e))"

text \<open>
  The check of the session cache at the start of \<^verbatim>\<open>Schedule\<close>: whether the event's
  data is asset data whose asset the cache of the session already holds.
\<close>

definition previously_scheduled :: "session option \<Rightarrow> EventData \<Rightarrow> bool go_result" where
  "previously_scheduled sess dat =
     (case dat of
        DataAssetData dopt \<Rightarrow>
          (case dopt of
             None \<Rightarrow> Panic
           | Some d \<Rightarrow>
              (case sess of
                 None \<Rightarrow> Panic
               | Some ss \<Rightarrow>
                  (case GetAsset (Cache ss) (OAMAsset d) of
                     (a, hit) \<Rightarrow> Returned (a \<noteq> None \<and> hit))))
      | _ \<Rightarrow> Returned False)"

text \<open>
  \<^verbatim>\<open>Schedule\<close>.  The inputs \<open>fresh\<close> and \<open>now\<close> are what \<^verbatim>\<open>uuid.New()\<close> and
  \<^verbatim>\<open>time.Now()\<close> return in this call.  \<open>prepared_event\<close> is the caller's event as
  \<^verbatim>\<open>Schedule\<close> has rewritten it when it calls \<^verbatim>\<open>schedule\<close>: set up, with its initial
  state, its priority, the scheduler and the session.
\<close>

definition prepared_event :: "Scheduler \<Rightarrow> uuid \<Rightarrow> int \<Rightarrow> Event \<Rightarrow> Event" where
  "prepared_event s fresh now e =
     (let session = mgr s (SessionID e);
          e1 = setupEvent fresh now e;
          e2 = e1\<lparr>State := EventStateWaiting\<rparr>;
          e3 = depend_loop (events s) (DependOn e2) e2;
          e4 = (if Priority e3 \<le> 0 then e3\<lparr>Priority := 1\<rparr> else e3)
      in e4\<lparr>Sched := True,
            Session := (if session = None then None else Some (SessionID e))\<rparr>)"

text \<open>
  The result of \<^verbatim>\<open>Schedule\<close> is the Go error, the caller's event after the call and the
  scheduler as the call leaves it.  On success the call also starts a worker on the
  caller's event (\<^verbatim>\<open>go processEvent(e)\<close>); \<open>Schedule_worker\<close> is the event of that
  worker.  The body of \<^verbatim>\<open>processEvent\<close> is not among the sources and the worker runs
  at a moment of its own, so \<open>Schedule\<close> gives the scheduler before the worker has
  taken a step.
\<close>

definition Schedule :: "Scheduler \<Rightarrow> uuid \<Rightarrow> int \<Rightarrow> Event option \<Rightarrow> string option go_result \<times> Event option \<times> Scheduler" where
  "Schedule s fresh now eo =
     (case eo of
        None \<Rightarrow> (Returned (Some ''the event is nil''), None, s)
      | Some e \<Rightarrow>
          let session = mgr s (SessionID e) in
          (case previously_scheduled session (Data e) of
             Panic \<Rightarrow> (Panic, Some e, s)
           | Returned seen \<Rightarrow>
               if seen then
                 (Returned (Some ''this event has been scheduled previously''), Some e, s)
               else
                 let e5 = prepared_event s fresh now e;
                     s1 = schedule s e5;
                     s2 = s1\<lparr>stats := (stats s1)
                            \<lparr>TotalEventsReceived := TotalEventsReceived (stats s1) + 1\<rparr>\<rparr>
                 in (Returned None, Some e5, s2)))"

definition Schedule_worker :: "Scheduler \<Rightarrow> uuid \<Rightarrow> int \<Rightarrow> Event option \<Rightarrow> Event option" where
  "Schedule_worker s fresh now eo =
     (case Schedule s fresh now eo of
        (Returned None, e5, s2) \<Rightarrow> e5
      | _ \<Rightarrow> None)"


subsection \<open>The scheduler: cancellation and repetition\<close>

text \<open>
  \<^verbatim>\<open>removeEventAndDeps\<close> ranges over the events map; an entry removed before the range
  reaches it is not visited.  The body acts on an event that lists the UUID among its
  dependencies: the first match cancels, counts and removes the event, and a further
  match finds the state already cancelled and changes nothing.
\<close>

fun removeDeps_loop :: "uuid \<Rightarrow> (uuid \<times> Event) list \<Rightarrow> Scheduler \<Rightarrow> Scheduler" where
  "removeDeps_loop uuid [] s = s"
| "removeDeps_loop uuid ((k, event) # rest) s =
     removeDeps_loop uuid rest
       (if map_of (events s) k \<noteq> None \<and> uuid \<in> set (DependOn event) then
          (updateSchedulerStats s (State event) EventStateCancelled)
            \<lparr>events := AList.delete (UUID event) (events s)\<rparr>
        else s)"

definition removeEventAndDeps :: "Scheduler \<Rightarrow> uuid \<Rightarrow> Scheduler" where
  "removeEventAndDeps s uuid =
     (let s1 = removeDeps_loop uuid (events s) s
      in s1\<lparr>events := AList.delete uuid (events s1)\<rparr>)"

definition Cancel :: "Scheduler \<Rightarrow> uuid \<Rightarrow> Scheduler" where
  "Cancel s uuid =
     (case map_of (events s) uuid of
        None \<Rightarrow> s
      | Some event \<Rightarrow>
          removeEventAndDeps
            (s\<lparr>events := set_entry_state (events s) uuid EventStateCancelled\<rparr>) uuid)"

definition cancel_entries :: "(uuid \<times> Event) list \<Rightarrow> (uuid \<times> Event) list" where
  "cancel_entries evs = map (\<lambda>(k, ev). (k, ev\<lparr>State := EventStateCancelled\<rparr>)) evs"

definition CancelAll :: "Scheduler \<Rightarrow> Scheduler" where
  "CancelAll s =
     s\<lparr>events := cancel_entries (events s),
       stats := (stats s)
         \<lparr>TotalEventsCancelled := TotalEventsCancelled (stats s) + int (length (events s))\<rparr>\<rparr>"

definition Shutdown :: "Scheduler \<Rightarrow> Scheduler" where
  "Shutdown s = (CancelAll s)\<lparr>state := SchedulerStateShutdown\<rparr>"

definition reschedule :: "Scheduler \<Rightarrow> int \<Rightarrow> Event \<Rightarrow> Scheduler" where
  "reschedule s now event =
     (if RepeatEvery event = 0 \<and> RepeatTimes event > 0 then
        let s1 = updateSchedulerStats s (State event) EventStateProcessable;
            ev = event\<lparr>State := EventStateProcessable, RepeatTimes := RepeatTimes event - 1\<rparr>
        in schedule s1 ev
      else if RepeatEvery event > 0 \<and> RepeatTimes event > 0 then
        let s1 = updateSchedulerStats s (State event) EventStateProcessable;
            ev = event\<lparr>State := EventStateProcessable, Timestamp := now,
                       RepeatTimes := RepeatTimes event - 1\<rparr>
        in schedule s1 ev
      else if RepeatEvery event \<ge> 0 \<and> RepeatTimes event = - 1 then
        let s1 = updateSchedulerStats s (State event) EventStateProcessable;
            ev = event\<lparr>State := EventStateProcessable, Timestamp := now\<rparr>
        in schedule s1 ev
      else s\<lparr>events := AList.delete (UUID event) (events s)\<rparr>)"

subsection \<open>The scheduler: the process loop\<close>

text \<open>
  \<^verbatim>\<open>isProcessable\<close>: the loop over \<^verbatim>\<open>event.DependOn\<close> stops at the first dependency that
  is in the map and not done, and only then decides: the event cannot be processed
  unless that dependency is the event itself or the zero UUID.
\<close>

fun isProcessable_loop :: "(uuid \<times> Event) list \<Rightarrow> Event \<Rightarrow> uuid list \<Rightarrow> bool" where
  "isProcessable_loop evs event [] = True"
| "isProcessable_loop evs event (dependUUID # rest) =
     (case map_of evs dependUUID of
        None \<Rightarrow> isProcessable_loop evs event rest
      | Some depEvent \<Rightarrow>
          if State depEvent \<noteq> EventStateDone then
            (if dependUUID \<noteq> UUID event \<and> dependUUID \<noteq> zeroUUID then False else True)
          else isProcessable_loop evs event rest)"

definition isProcessable :: "Scheduler \<Rightarrow> Event \<Rightarrow> bool" where
  "isProcessable s event = isProcessable_loop (events s) event (DependOn event)"

text \<open>
  One iteration of the loop of \<^verbatim>\<open>Process\<close>, from the test of the scheduler state to the
  \<^verbatim>\<open>continue\<close>, the \<^verbatim>\<open>return\<close> or the end of the body, with \<open>now\<close> the reading of the
  clock in this iteration; \<open>process_event\<close> is the part of the body that follows the
  removal of the event from the queue.  The outcome says how the iteration ends; \<open>Spawn\<close> and
  \<open>SpawnReturn\<close> carry the event whose worker the iteration starts
  (\<^verbatim>\<open>go processEvent(&event)\<close>).  The waiting time that the source computes only feeds
  \<^verbatim>\<open>time.Sleep\<close> and is left out.  A duration is a number of nanoseconds of 64 bits, so
  the products that turn milliseconds and seconds into durations are reduced to 64 bits;
  the clock itself is not bounded.  A read of \<^verbatim>\<open>s.events[event.UUID].State\<close> for a UUID that
  is not in the map dereferences nil.
\<close>

datatype step_outcome = Return | Continue | Spawn Event | SpawnReturn Event | StepPanic

definition step_ready :: "ProcessConfig \<Rightarrow> int \<Rightarrow> Scheduler \<Rightarrow> Event \<Rightarrow> step_outcome \<times> Scheduler" where
  "step_ready config now s event0 =
     (let s1 = (if CurrentRunningActions s < MaxConcurrentActions config then
                  updateSchedulerStats s (State event0) EventStateInProcess
                else s);
          event1 = (if CurrentRunningActions s < MaxConcurrentActions config then
                      event0\<lparr>State := EventStateInProcess\<rparr>
                    else event0);
          event = event1\<lparr>Timeout := now + wrap64 (ActionTimeout config * 1000000000)\<rparr>
      in if ExecuteAction config \<and> Action event \<noteq> None then
           let s2 = schedule s1 event in
           if State event \<noteq> EventStateInProcess then (Continue, s2)
           else
             let s3 = s2\<lparr>CurrentRunningActions := CurrentRunningActions s2 + 1\<rparr>
             in (if ReturnIfFound config then SpawnReturn event else Spawn event, s3)
         else
           let s2 = updateSchedulerStats s1 (State event) EventStateProcessable
           in (if ReturnIfFound config then Return else Continue, s2))"

definition process_event :: "ProcessConfig \<Rightarrow> int \<Rightarrow> Scheduler \<Rightarrow> Event \<Rightarrow> step_outcome \<times> Scheduler" where
  "process_event config now s0 event =
     (case map_of (events s0) (UUID event) of
        None \<Rightarrow> (StepPanic, s0)
      | Some stored \<Rightarrow>
          if State stored = EventStateInProcess then
            (if ActionTimeout config > 0 \<and> now > Timeout event then
               (Continue,
                schedule (updateSchedulerStats s0 (State event) EventStateError)
                  (event\<lparr>State := EventStateError\<rparr>))
             else (Continue, schedule s0 event))
          else if State stored = EventStateCancelled \<or> State stored = EventStateError
          then (Continue, removeEventAndDeps s0 (UUID event))
          else if State stored = EventStateDone then
            (Continue, reschedule s0 now event)
          else if isProcessable s0 event \<and>
                  now > Timestamp event + wrap64 (RepeatEvery event * 1000000)
          then step_ready config now s0 event
          else (Continue, schedule s0 event))"

definition process_step :: "ProcessConfig \<Rightarrow> int \<Rightarrow> Scheduler \<Rightarrow> step_outcome \<times> Scheduler" where
  "process_step config now s =
     (if state s = SchedulerStateShutdown then (Return, s)
      else if state s = SchedulerStatePaused then (Continue, s)
      else
        (case Next (q s) of
           None \<Rightarrow> (if ExitWhenEmpty config then Return else Continue, s)
         | Some (event, rest) \<Rightarrow> process_event config now (s\<lparr>q := rest\<rparr>) event))"

subsection \<open>Scenarios\<close>

text \<open>
  Concrete events and runs for the examples.  \<open>blank_event\<close> is an event with every
  field at its zero value; the scenarios start from a new scheduler whose session manager
  knows no session.
\<close>

definition blank_event :: Event where
  "blank_event =
     \<lparr>UUID = 0, SessionID = 0, Session = None, Name = [], Timestamp = 0,
      Type = EventTypeUnknown, State = EventStateWaiting, DependOn = [], Action = None,
      Data = DataNil, Priority = 0, RepeatEvery = 0, RepeatTimes = 0, Timeout = 0,
      Sched = False\<rparr>"

definition no_sessions :: "uuid \<Rightarrow> session option" where
  "no_sessions sid = None"

text \<open>
  The priority scenario: \<open>e0\<close> is scheduled with priority 3 and receives the UUID 1,
  then \<open>e1\<close> is scheduled with priority 5 and \<^verbatim>\<open>DependOn = [e0.UUID]\<close>.  In the second
  variant \<open>e0\<close> is set to done between the two calls.
\<close>

definition prio_e0 :: Event where
  "prio_e0 = blank_event\<lparr>Name := ''e0'', Priority := 3\<rparr>"

definition prio_e1 :: Event where
  "prio_e1 = blank_event\<lparr>Name := ''e1'', Priority := 5, DependOn := [1]\<rparr>"

definition prio_first :: "string option go_result \<times> Event option \<times> Scheduler" where
  "prio_first = Schedule (NewScheduler no_sessions) 1 100 (Some prio_e0)"

definition prio_second :: "string option go_result \<times> Event option \<times> Scheduler" where
  "prio_second = Schedule (snd (snd prio_first)) 2 200 (Some prio_e1)"



text \<open>
  The asset scenario for \<^verbatim>\<open>Schedule\<close>: an event of session 7 whose data is the example
  asset, a session manager whose session 7 has an empty cache, and one whose session 7
  already holds the asset.
\<close>

definition asset_event :: Event where
  "asset_event =
     blank_event\<lparr>SessionID := 7, Name := ''example.com'',
       Data := DataAssetData (Some \<lparr>OAMAsset = Asset example_asset, OAMType = ''FQDN''\<rparr>)\<rparr>"

definition fresh_sessions :: "uuid \<Rightarrow> session option" where
  "fresh_sessions sid = (if sid = 7 then Some empty_session else None)"

definition cached_sessions :: "uuid \<Rightarrow> session option" where
  "cached_sessions sid =
     (if sid = 7 then
        Some (empty_session\<lparr>Cache := [Asset example_asset \<mapsto> example_asset]\<rparr>)
      else None)"





text \<open>
  The dependency scenario: \<open>d\<close> is scheduled with priority 1 and receives the UUID 1;
  then \<open>e\<close> is scheduled with UUID 2, priority 2 and \<^verbatim>\<open>DependOn = [2, 1]\<close>, its own UUID
  first.  The process loop then runs one iteration, a second after the calls, with the
  configuration of the repository's tests; the queue serves \<open>e\<close>, whose priority is the
  higher.
\<close>

definition dep_d :: Event where
  "dep_d = blank_event\<lparr>Name := ''d'', Priority := 1\<rparr>"

definition dep_e :: Event where
  "dep_e = blank_event\<lparr>UUID := 2, Name := ''e'', Priority := 2, DependOn := [2, 1]\<rparr>"

definition dep_scheduled :: Scheduler where
  "dep_scheduled =
     snd (snd (Schedule (snd (snd (Schedule (NewScheduler no_sessions) 1 100 (Some dep_d))))
                 3 200 (Some dep_e)))"

definition test_config :: ProcessConfig where
  "test_config =
     \<lparr>ExitWhenEmpty = True, CheckEvent = True, ExecuteAction = True, ReturnIfFound = False,
      DebugLevel = 0, ActionTimeout = 60, MaxConcurrentActions = 10\<rparr>"

definition dep_step :: "step_outcome \<times> Scheduler" where
  "dep_step = process_step test_config 1000000200 dep_scheduled"

text \<open>
  The life of one event: an event with every field at its zero value is scheduled, the
  process loop starts its worker, the action sets the event to done (the call of
  \<^verbatim>\<open>SetEventState\<close> that the default action makes), the loop finds it done and removes
  it, and the next iteration finds the queue empty and returns.
\<close>

definition life_scheduled :: Scheduler where
  "life_scheduled = snd (snd (Schedule (NewScheduler no_sessions) 1 100 (Some blank_event)))"

definition life_started :: "step_outcome \<times> Scheduler" where
  "life_started = process_step test_config 1000 life_scheduled"

definition life_done :: Scheduler where
  "life_done =
     (case fst life_started of
        Spawn event \<Rightarrow> snd (SetEventState (snd life_started) event EventStateDone)
      | _ \<Rightarrow> snd life_started)"

definition life_removed :: "step_outcome \<times> Scheduler" where
  "life_removed = process_step test_config 2000 life_done"

definition life_end :: "step_outcome \<times> Scheduler" where
  "life_end = process_step test_config 3000 (snd life_removed)"

section \<open>Properties\<close>

subsection \<open>Properties of the retry loop\<close>

lemma dnsQuery_loop_calls_le:
  "int num \<le> attempts \<Longrightarrow> int (snd (dnsQuery_loop r attempts num)) \<le> attempts"
proof (induction r attempts num rule: dnsQuery_loop.induct)
  case (1 r attempts num)
  show ?case
  proof (cases "int num < attempts")
    case False
    with "1.prems" show ?thesis
      by (simp add: dnsQuery_loop.simps [of r attempts num])
  next
    case True
    then have le: "int (Suc num) \<le> attempts" by simp
    with True "1.IH" show ?thesis
      by (auto simp: dnsQuery_loop.simps [of r attempts num] split: option.splits)
  qed
qed

lemma dnsQuery_loop_skip:
  "int num < attempts \<Longrightarrow> skipped (r num) \<Longrightarrow>
   dnsQuery_loop r attempts num = dnsQuery_loop r attempts (Suc num)"
  by (auto simp: dnsQuery_loop.simps [of r attempts num] skipped_def
           split: option.splits)

lemma dnsQuery_loop_skip_prefix:
  "int (num + k) \<le> attempts \<Longrightarrow> \<forall>j. num \<le> j \<and> j < num + k \<longrightarrow> skipped (r j) \<Longrightarrow>
   dnsQuery_loop r attempts num = dnsQuery_loop r attempts (num + k)"
proof (induction k)
  case 0
  then show ?case by simp
next
  case (Suc k)
  then have "dnsQuery_loop r attempts num = dnsQuery_loop r attempts (num + k)"
    by simp
  also have "\<dots> = dnsQuery_loop r attempts (Suc (num + k))"
    using Suc.prems by (intro dnsQuery_loop_skip) auto
  finally show ?case by simp
qed

lemma dnsQuery_skip_prefix:
  "int k \<le> attempts \<Longrightarrow> \<forall>j<k. skipped (r j) \<Longrightarrow>
   dnsQuery r attempts = dnsQuery_loop r attempts k"
  using dnsQuery_loop_skip_prefix [of 0 k attempts r] by (simp add: dnsQuery_def)

lemma network_error_skipped: "network_error res \<Longrightarrow> skipped res"
  by (auto simp: network_error_def skipped_def split: option.splits)


lemma dnsQuery_loop_decisive:
  "int k < attempts \<Longrightarrow> r k = (Some resp, None) \<Longrightarrow>
   dnsQuery_loop r attempts k =
     (if Rcode resp = RcodeNameError then
        (Returned (None, Some ''name does not exist''), Suc k)
      else if Rcode resp = RcodeSuccess then
        (if Answer resp = [] then (Returned (None, Some ''no record of this type''), Suc k)
         else (Returned (Some resp, None), Suc k))
      else dnsQuery_loop r attempts (Suc k))"
  by (simp add: dnsQuery_loop.simps [of r attempts k])

lemma dnsQuery_loop_exhausted:
  "\<not> int k < attempts \<Longrightarrow> dnsQuery_loop r attempts k = (Returned (None, None), k)"
  by (simp add: dnsQuery_loop.simps [of r attempts k])

text \<open>
  Claim C8.  The retry core of \<^verbatim>\<open>PerformQuery\<close> calls \<^verbatim>\<open>QueryBlocking\<close> at most 50
  times.  If the attempts before attempt \<open>k < 50\<close> were all passed over and attempt \<open>k\<close>
  returns a response, then NXDOMAIN ends the loop at once with the error "name does not
  exist", success with an empty answer section ends it with "no record of this type",
  and success with answers returns that message with a nil error; in each case exactly
  \<open>k + 1\<close> queries were made.  An attempt that returns a network error is passed over:
  the loop goes on with the next attempt.  When all 50 attempts are passed over, the
  result is \<^verbatim>\<open>(nil, nil)\<close>.
\<close>

theorem dnsQuery_retry_core:
  "snd (PerformQuery_dnsQuery r) \<le> 50 \<and>
   (\<forall>k resp. k < 50 \<and> (\<forall>j<k. skipped (r j)) \<and> r k = (Some resp, None) \<longrightarrow>
      (Rcode resp = RcodeNameError \<longrightarrow>
         PerformQuery_dnsQuery r = (Returned (None, Some ''name does not exist''), Suc k)) \<and>
      (Rcode resp = RcodeSuccess \<and> Answer resp = [] \<longrightarrow>
         PerformQuery_dnsQuery r = (Returned (None, Some ''no record of this type''), Suc k)) \<and>
      (Rcode resp = RcodeSuccess \<and> Answer resp \<noteq> [] \<longrightarrow>
         PerformQuery_dnsQuery r = (Returned (Some resp, None), Suc k))) \<and>
   (\<forall>k. k < 50 \<and> (\<forall>j<k. skipped (r j)) \<and> network_error (r k) \<longrightarrow>
      skipped (r k) \<and> PerformQuery_dnsQuery r = dnsQuery_loop r 50 (Suc k)) \<and>
   ((\<forall>j<50. skipped (r j)) \<longrightarrow> PerformQuery_dnsQuery r = (Returned (None, None), 50))"
proof (intro conjI allI impI)
  have "int (snd (dnsQuery_loop r 50 0)) \<le> 50"
    by (rule dnsQuery_loop_calls_le) simp
  then show "snd (PerformQuery_dnsQuery r) \<le> 50"
    by (simp add: PerformQuery_dnsQuery_def dnsQuery_def)
next
  fix k resp
  assume h: "k < 50 \<and> (\<forall>j<k. skipped (r j)) \<and> r k = (Some resp, None)"
  then have start: "PerformQuery_dnsQuery r = dnsQuery_loop r 50 k"
    unfolding PerformQuery_dnsQuery_def by (intro dnsQuery_skip_prefix) auto
  from h have dec: "dnsQuery_loop r 50 k =
     (if Rcode resp = RcodeNameError then
        (Returned (None, Some ''name does not exist''), Suc k)
      else if Rcode resp = RcodeSuccess then
        (if Answer resp = [] then (Returned (None, Some ''no record of this type''), Suc k)
         else (Returned (Some resp, None), Suc k))
      else dnsQuery_loop r 50 (Suc k))"
    by (intro dnsQuery_loop_decisive) auto
  {
    assume "Rcode resp = RcodeNameError"
    with start dec
    show "PerformQuery_dnsQuery r = (Returned (None, Some ''name does not exist''), Suc k)"
      by simp
  }
  {
    assume "Rcode resp = RcodeSuccess \<and> Answer resp = []"
    with start dec
    show "PerformQuery_dnsQuery r = (Returned (None, Some ''no record of this type''), Suc k)"
      by (simp add: RcodeSuccess_def RcodeNameError_def)
  }
  {
    assume "Rcode resp = RcodeSuccess \<and> Answer resp \<noteq> []"
    with start dec
    show "PerformQuery_dnsQuery r = (Returned (Some resp, None), Suc k)"
      by (simp add: RcodeSuccess_def RcodeNameError_def)
  }
next
  fix k
  assume h: "k < 50 \<and> (\<forall>j<k. skipped (r j)) \<and> network_error (r k)"
  then show sk: "skipped (r k)"
    by (simp add: network_error_skipped)
  from h sk have "\<forall>j<Suc k. skipped (r j)"
    by (simp add: less_Suc_eq)
  moreover from h have "int (Suc k) \<le> 50" by simp
  ultimately show "PerformQuery_dnsQuery r = dnsQuery_loop r 50 (Suc k)"
    unfolding PerformQuery_dnsQuery_def by (rule dnsQuery_skip_prefix [rotated])
next
  assume h: "\<forall>j<50. skipped (r j)"
  then have "dnsQuery r 50 = dnsQuery_loop r 50 50"
    by (intro dnsQuery_skip_prefix) auto
  then show "PerformQuery_dnsQuery r = (Returned (None, None), 50)"
    by (simp add: PerformQuery_dnsQuery_def dnsQuery_loop_exhausted)
qed

lemma example_resolvers_prefix: "\<forall>j<2. skipped (example_resolvers j)"
  by (auto simp: example_resolvers_def skipped_def RcodeNameError_def RcodeSuccess_def
                 less_Suc_eq numeral_2_eq_2)

theorem dnsQuery_retry_core_witness:
  "network_error (example_resolvers 0) \<and> skipped (example_resolvers 1) \<and>
   example_resolvers 2 = (Some \<lparr>Rcode = 3, Answer = []\<rparr>, None) \<and>
   PerformQuery_dnsQuery example_resolvers =
     (Returned (None, Some ''name does not exist''), 3) \<and>
   snd (PerformQuery_dnsQuery example_resolvers) \<le> 50"
proof -
  have r2: "example_resolvers 2 = (Some \<lparr>Rcode = 3, Answer = []\<rparr>, None)"
    by (simp add: example_resolvers_def)
  have "(2::nat) < 50 \<and> (\<forall>j<2. skipped (example_resolvers j)) \<and>
        example_resolvers 2 = (Some \<lparr>Rcode = 3, Answer = []\<rparr>, None)"
    using example_resolvers_prefix r2 by simp
  with dnsQuery_retry_core [of example_resolvers]
  have "PerformQuery_dnsQuery example_resolvers =
          (Returned (None, Some ''name does not exist''), 3)"
    by (auto simp: RcodeNameError_def numeral_3_eq_3 numeral_2_eq_2)
  moreover have "network_error (example_resolvers 0)"
    by (simp add: example_resolvers_def network_error_def)
  moreover have "skipped (example_resolvers 1)"
    by (simp add: example_resolvers_def skipped_def RcodeNameError_def RcodeSuccess_def)
  ultimately show ?thesis using r2 by simp
qed

subsection \<open>The dispatcher\<close>

lemma DispatchEvent_hit:
  "ev_Asset e = Some p \<Longrightarrow> ev_Session e = Some sid \<Longrightarrow>
   Cache (sessions w sid) (Asset p) \<noteq> None \<Longrightarrow>
   DispatchEvent d w (Some e) =
     (Returned (Some ''this event has been scheduled previously''), w)"
  by (simp add: DispatchEvent_def GetAsset_def Let_def)

lemma DispatchEvent_lookup_error:
  "ev_Asset e = Some p \<Longrightarrow> ev_Session e = Some sid \<Longrightarrow>
   Cache (sessions w sid) (Asset p) = None \<Longrightarrow>
   snd (reg d (AssetType (Asset p))) = Some err \<Longrightarrow>
   DispatchEvent d w (Some e) = (Returned (Some err), cache_SetAsset w sid p)"
  by (simp add: DispatchEvent_def GetAsset_def Let_def)

lemma DispatchEvent_enqueue:
  "ev_Asset e = Some p \<Longrightarrow> ev_Session e = Some sid \<Longrightarrow>
   Cache (sessions w sid) (Asset p) = None \<Longrightarrow>
   reg d (AssetType (Asset p)) = (Some ap, None) \<Longrightarrow>
   DispatchEvent d w (Some e) =
     (Returned None,
      incr_WorkItemsTotal
        (queue_Append (cache_SetAsset w sid p) (ap_Queue ap)
           \<lparr>ede_Event = e\<lparr>ev_Dispatcher := Some (self d)\<rparr>, ede_Error = None,
            ede_Queue = Some (completed d)\<rparr>) sid)"
  by (simp add: DispatchEvent_def GetAsset_def Let_def NewEventDataElement_def)

lemma cache_SetAsset_cached:
  "Cache (sessions (cache_SetAsset w sid p) sid) (Asset p) \<noteq> None"
  by (simp add: cache_SetAsset_def SetAsset_def)

lemma cache_SetAsset_mono:
  "Cache (sessions w sid) a \<noteq> None \<Longrightarrow> Cache (sessions (cache_SetAsset w sid' p) sid) a \<noteq> None"
  by (auto simp: cache_SetAsset_def SetAsset_def)

lemma DispatchEvent_cache_mono:
  "Cache (sessions w sid) a \<noteq> None \<Longrightarrow>
   Cache (sessions (snd (DispatchEvent d w eo)) sid) a \<noteq> None"
  by (auto simp: DispatchEvent_def GetAsset_def Let_def NewEventDataElement_def
       incr_WorkItemsTotal_def queue_Append_def cache_SetAsset_def SetAsset_def
       split: option.splits)

lemma dispatch_all_cache_mono:
  "Cache (sessions w sid) a \<noteq> None \<Longrightarrow>
   Cache (sessions (dispatch_all d w es) sid) a \<noteq> None"
proof (induction es arbitrary: w)
  case Nil
  then show ?case by simp
next
  case (Cons e es)
  from Cons.prems have "Cache (sessions (snd (DispatchEvent d w e)) sid) a \<noteq> None"
    by (rule DispatchEvent_cache_mono)
  then show ?case using Cons.IH by simp
qed

lemma DispatchEvent_miss_cached:
  "ev_Asset e = Some p \<Longrightarrow> ev_Session e = Some sid \<Longrightarrow>
   Cache (sessions w sid) (Asset p) = None \<Longrightarrow>
   Cache (sessions (snd (DispatchEvent d w (Some e))) sid) (Asset p) = Some p"
  by (auto simp: DispatchEvent_def GetAsset_def Let_def NewEventDataElement_def
       incr_WorkItemsTotal_def queue_Append_def cache_SetAsset_def SetAsset_def
       split: option.splits)

text \<open>
  Claim C10.  \<^verbatim>\<open>DispatchEvent\<close> inserts the asset into the session cache before the
  pipeline lookup.  When the asset was not cached and the lookup returns an error, the
  call returns that error with the asset left in the cache, no element enqueued on any
  queue and no counter of any session changed; every later \<^verbatim>\<open>DispatchEvent\<close> (by any
  dispatcher) of an event with the same asset in the same session fails with "this event
  has been scheduled previously" and changes nothing.
\<close>

theorem DispatchEvent_not_atomic:
  assumes "ev_Asset e = Some p" and "ev_Session e = Some sid"
    and "Cache (sessions w sid) (Asset p) = None"
    and "snd (reg d (AssetType (Asset p))) = Some err"
  shows "fst (DispatchEvent d w (Some e)) = Returned (Some err) \<and>
     Cache (sessions (snd (DispatchEvent d w (Some e))) sid) (Asset p) = Some p \<and>
     queues (snd (DispatchEvent d w (Some e))) = queues w \<and>
     (\<forall>n. Stats (sessions (snd (DispatchEvent d w (Some e))) n) = Stats (sessions w n)) \<and>
     (\<forall>d' e' p'. ev_Asset e' = Some p' \<and> Asset p' = Asset p \<and> ev_Session e' = Some sid \<longrightarrow>
        DispatchEvent d' (snd (DispatchEvent d w (Some e))) (Some e') =
          (Returned (Some ''this event has been scheduled previously''),
           snd (DispatchEvent d w (Some e))))"
proof -
  have run: "DispatchEvent d w (Some e) = (Returned (Some err), cache_SetAsset w sid p)"
    using assms by (rule DispatchEvent_lookup_error)
  have cached: "Cache (sessions (cache_SetAsset w sid p) sid) (Asset p) = Some p"
    using assms(3) by (simp add: cache_SetAsset_def SetAsset_def)
  have later: "DispatchEvent d' (cache_SetAsset w sid p) (Some e') =
      (Returned (Some ''this event has been scheduled previously''), cache_SetAsset w sid p)"
    if "ev_Asset e' = Some p' \<and> Asset p' = Asset p \<and> ev_Session e' = Some sid"
    for d' e' p'
    using that cached by (intro DispatchEvent_hit [of e' p' sid]) auto
  show ?thesis
    using run cached later by (auto simp: cache_SetAsset_def)
qed

theorem DispatchEvent_not_atomic_witness:
  "fst (DispatchEvent failing_dis empty_world (Some example_event)) =
     Returned (Some ''no pipeline for this asset type'') \<and>
   Cache (sessions (snd (DispatchEvent failing_dis empty_world (Some example_event))) 0)
     (Asset example_asset) = Some example_asset \<and>
   queues (snd (DispatchEvent failing_dis empty_world (Some example_event))) =
     queues empty_world \<and>
   WorkItemsTotal
     (Stats (sessions (snd (DispatchEvent failing_dis empty_world (Some example_event))) 0)) = 0 \<and>
   DispatchEvent empty_dis (snd (DispatchEvent failing_dis empty_world (Some example_event)))
     (Some example_event) =
     (Returned (Some ''this event has been scheduled previously''),
      snd (DispatchEvent failing_dis empty_world (Some example_event)))"
proof -
  have a: "ev_Asset example_event = Some example_asset"
    and b: "ev_Session example_event = Some 0"
    and c: "Cache (sessions empty_world 0) (Asset example_asset) = None"
    and d: "snd (reg failing_dis (AssetType (Asset example_asset))) =
              Some ''no pipeline for this asset type''"
    by (simp_all add: example_event_def empty_world_def empty_session_def failing_dis_def
          failing_registry_def)
  have z: "WorkItemsTotal (Stats (sessions empty_world 0)) = 0"
    by (simp add: empty_world_def empty_session_def)
  from DispatchEvent_not_atomic [OF a b c d] a b z show ?thesis
    by auto
qed

lemma DispatchEvent_example_empty:
  "DispatchEvent empty_dis empty_world (Some example_event) =
     (Returned None,
      incr_WorkItemsTotal
        (queue_Append (cache_SetAsset empty_world 0 example_asset) 1
           \<lparr>ede_Event = example_event\<lparr>ev_Dispatcher := Some 0\<rparr>, ede_Error = None,
            ede_Queue = Some 0\<rparr>) 0)"
proof -
  have "DispatchEvent empty_dis empty_world (Some example_event) =
     (Returned None,
      incr_WorkItemsTotal
        (queue_Append (cache_SetAsset empty_world 0 example_asset)
           (ap_Queue \<lparr>ap_Handlers = [], ap_Queue = 1\<rparr>)
           \<lparr>ede_Event = example_event\<lparr>ev_Dispatcher := Some (self empty_dis)\<rparr>,
            ede_Error = None, ede_Queue = Some (completed empty_dis)\<rparr>) 0)"
    by (rule DispatchEvent_enqueue)
       (simp_all add: example_event_def empty_world_def empty_session_def empty_dis_def
          empty_registry_def)
  then show ?thesis by (simp add: empty_dis_def)
qed

text \<open>
  Claim C9 says that, for an asset type without handlers, the lookup yields an empty
  pipeline and \<^verbatim>\<open>DispatchEvent\<close> completes the event immediately.  It fails: with a
  registry that returns a pipeline without handlers and a nil error, the call returns a
  nil error, but the event is not completed.  Its element waits on the input queue of the
  pipeline and is counted in \<^verbatim>\<open>WorkItemsTotal\<close>; the completion queue is empty and
  \<^verbatim>\<open>WorkItemsCompleted\<close> is 0.
\<close>

theorem DispatchEvent_empty_pipeline_counterexample:
  "fst (reg empty_dis (AssetType (Asset example_asset))) =
     Some \<lparr>ap_Handlers = [], ap_Queue = 1\<rparr> \<and>
   snd (reg empty_dis (AssetType (Asset example_asset))) = None \<and>
   fst (DispatchEvent empty_dis empty_world (Some example_event)) = Returned None \<and>
   \<not> completes_event empty_dis empty_world
       (snd (DispatchEvent empty_dis empty_world (Some example_event))) 0 \<and>
   queues (snd (DispatchEvent empty_dis empty_world (Some example_event))) 1 =
     [\<lparr>ede_Event = example_event\<lparr>ev_Dispatcher := Some 0\<rparr>, ede_Error = None,
       ede_Queue = Some 0\<rparr>] \<and>
   queues (snd (DispatchEvent empty_dis empty_world (Some example_event))) 0 = [] \<and>
   WorkItemsTotal
     (Stats (sessions (snd (DispatchEvent empty_dis empty_world (Some example_event))) 0)) = 1 \<and>
   WorkItemsCompleted
     (Stats (sessions (snd (DispatchEvent empty_dis empty_world (Some example_event))) 0)) = 0"
  unfolding DispatchEvent_example_empty
  by (simp add: completes_event_def incr_WorkItemsTotal_def queue_Append_def
        cache_SetAsset_def empty_world_def empty_session_def empty_dis_def
        empty_registry_def)

text \<open>
  Claim C9, amended.  For an event whose asset is not in the cache of its session:
  whenever the lookup returns a pipeline and a nil error (with or without handlers, its
  input queue being another queue than the completion queue), \<^verbatim>\<open>DispatchEvent\<close> returns
  a nil error, appends the element of the event to the input queue of that pipeline and
  adds one to \<^verbatim>\<open>WorkItemsTotal\<close>; it does not complete the event.  Whenever the lookup
  returns an error, \<^verbatim>\<open>DispatchEvent\<close> returns that error.
\<close>

theorem DispatchEvent_empty_pipeline:
  assumes "ev_Asset e = Some p" and "ev_Session e = Some sid"
    and "Cache (sessions w sid) (Asset p) = None"
  shows "(\<forall>ap. reg d (AssetType (Asset p)) = (Some ap, None) \<and> ap_Queue ap \<noteq> completed d \<longrightarrow>
        fst (DispatchEvent d w (Some e)) = Returned None \<and>
        queues (snd (DispatchEvent d w (Some e))) (ap_Queue ap) =
          queues w (ap_Queue ap) @
            [\<lparr>ede_Event = e\<lparr>ev_Dispatcher := Some (self d)\<rparr>, ede_Error = None,
              ede_Queue = Some (completed d)\<rparr>] \<and>
        WorkItemsTotal (Stats (sessions (snd (DispatchEvent d w (Some e))) sid)) =
          WorkItemsTotal (Stats (sessions w sid)) + 1 \<and>
        \<not> completes_event d w (snd (DispatchEvent d w (Some e))) sid) \<and>
     (\<forall>err. snd (reg d (AssetType (Asset p))) = Some err \<longrightarrow>
        fst (DispatchEvent d w (Some e)) = Returned (Some err))"
proof (intro conjI allI impI)
  fix ap
  assume h: "reg d (AssetType (Asset p)) = (Some ap, None) \<and> ap_Queue ap \<noteq> completed d"
  then have run: "DispatchEvent d w (Some e) =
     (Returned None,
      incr_WorkItemsTotal
        (queue_Append (cache_SetAsset w sid p) (ap_Queue ap)
           \<lparr>ede_Event = e\<lparr>ev_Dispatcher := Some (self d)\<rparr>, ede_Error = None,
            ede_Queue = Some (completed d)\<rparr>) sid)"
    using assms by (intro DispatchEvent_enqueue) auto
  show "fst (DispatchEvent d w (Some e)) = Returned None"
    by (simp add: run)
  show "queues (snd (DispatchEvent d w (Some e))) (ap_Queue ap) =
          queues w (ap_Queue ap) @
            [\<lparr>ede_Event = e\<lparr>ev_Dispatcher := Some (self d)\<rparr>, ede_Error = None,
              ede_Queue = Some (completed d)\<rparr>]"
    by (simp add: run incr_WorkItemsTotal_def queue_Append_def cache_SetAsset_def)
  show "WorkItemsTotal (Stats (sessions (snd (DispatchEvent d w (Some e))) sid)) =
          WorkItemsTotal (Stats (sessions w sid)) + 1"
    by (simp add: run incr_WorkItemsTotal_def queue_Append_def cache_SetAsset_def)
  from h show "\<not> completes_event d w (snd (DispatchEvent d w (Some e))) sid"
    by (simp add: run completes_event_def incr_WorkItemsTotal_def queue_Append_def
          cache_SetAsset_def)
next
  fix err
  assume "snd (reg d (AssetType (Asset p))) = Some err"
  with assms show "fst (DispatchEvent d w (Some e)) = Returned (Some err)"
    by (simp add: DispatchEvent_lookup_error)
qed

theorem DispatchEvent_empty_pipeline_witness:
  "fst (DispatchEvent empty_dis empty_world (Some example_event)) = Returned None \<and>
   queues (snd (DispatchEvent empty_dis empty_world (Some example_event))) 1 =
     queues empty_world 1 @
       [\<lparr>ede_Event = example_event\<lparr>ev_Dispatcher := Some 0\<rparr>, ede_Error = None,
         ede_Queue = Some 0\<rparr>] \<and>
   WorkItemsTotal
     (Stats (sessions (snd (DispatchEvent empty_dis empty_world (Some example_event))) 0)) =
     WorkItemsTotal (Stats (sessions empty_world 0)) + 1 \<and>
   \<not> completes_event empty_dis empty_world
       (snd (DispatchEvent empty_dis empty_world (Some example_event))) 0"
proof -
  have a: "ev_Asset example_event = Some example_asset"
    and b: "ev_Session example_event = Some 0"
    and c: "Cache (sessions empty_world 0) (Asset example_asset) = None"
    by (simp_all add: example_event_def empty_world_def empty_session_def)
  have r: "reg empty_dis (AssetType (Asset example_asset)) =
             (Some \<lparr>ap_Handlers = [], ap_Queue = 1\<rparr>, None) \<and>
           ap_Queue \<lparr>ap_Handlers = [], ap_Queue = 1\<rparr> \<noteq> completed empty_dis"
    by (simp add: empty_dis_def empty_registry_def)
  from DispatchEvent_empty_pipeline [OF a b c, of empty_dis] r
  have "fst (DispatchEvent empty_dis empty_world (Some example_event)) = Returned None \<and>
        queues (snd (DispatchEvent empty_dis empty_world (Some example_event)))
          (ap_Queue \<lparr>ap_Handlers = [], ap_Queue = 1\<rparr>) =
          queues empty_world (ap_Queue \<lparr>ap_Handlers = [], ap_Queue = 1\<rparr>) @
            [\<lparr>ede_Event = example_event\<lparr>ev_Dispatcher := Some (self empty_dis)\<rparr>,
              ede_Error = None, ede_Queue = Some (completed empty_dis)\<rparr>] \<and>
        WorkItemsTotal
          (Stats (sessions (snd (DispatchEvent empty_dis empty_world (Some example_event))) 0)) =
          WorkItemsTotal (Stats (sessions empty_world 0)) + 1 \<and>
        \<not> completes_event empty_dis empty_world
            (snd (DispatchEvent empty_dis empty_world (Some example_event))) 0"
    by blast
  then show ?thesis by (simp add: empty_dis_def)
qed

subsection \<open>Arithmetic of 64 bits\<close>





subsection \<open>The scheduler: Schedule\<close>




lemma stats_schedule: "stats (schedule s e) = stats s"
  by (simp add: schedule_def)


lemma Schedule_ok:
  "previously_scheduled (mgr s (SessionID e)) (Data e) = Returned False \<Longrightarrow>
   Schedule s fresh now (Some e) =
     (Returned None, Some (prepared_event s fresh now e),
      (schedule s (prepared_event s fresh now e))
        \<lparr>stats := (stats s)\<lparr>TotalEventsReceived := TotalEventsReceived (stats s) + 1\<rparr>\<rparr>)"
  by (simp add: Schedule_def Let_def stats_schedule)

lemma Schedule_seen:
  "previously_scheduled (mgr s (SessionID e)) (Data e) = Returned True \<Longrightarrow>
   Schedule s fresh now (Some e) =
     (Returned (Some ''this event has been scheduled previously''), Some e, s)"
  by (simp add: Schedule_def Let_def)

lemma Schedule_worker_ok:
  "previously_scheduled (mgr s (SessionID e)) (Data e) = Returned False \<Longrightarrow>
   Schedule_worker s fresh now (Some e) = Some (prepared_event s fresh now e)"
  by (simp add: Schedule_worker_def Schedule_ok)

lemma Schedule_worker_seen:
  "previously_scheduled (mgr s (SessionID e)) (Data e) = Returned True \<Longrightarrow>
   Schedule_worker s fresh now (Some e) = None"
  by (simp add: Schedule_worker_def Schedule_seen)









lemma previously_scheduled_asset:
  "previously_scheduled (Some ss) (DataAssetData (Some ad)) =
     Returned (Cache ss (OAMAsset ad) \<noteq> None)"
  by (simp add: previously_scheduled_def GetAsset_def)

subsection \<open>The scheduler: priorities\<close>

lemma prio_first_eval:
  "prio_first =
     (Returned None,
      Some (blank_event\<lparr>UUID := 1, Name := ''e0'', Timestamp := 100, Priority := 3,
                        Sched := True\<rparr>),
      \<lparr>q = [blank_event\<lparr>UUID := 1, Name := ''e0'', Timestamp := 100, Priority := 3,
                        Action := Some DefaultAction, Sched := True\<rparr>],
       events = [(1, blank_event\<lparr>UUID := 1, Name := ''e0'', Timestamp := 100, Priority := 3,
                        Action := Some DefaultAction, Sched := True\<rparr>)],
       stats = \<lparr>TotalEventsReceived = 1, TotalEventsDone = 0, TotalEventsCancelled = 0,
               TotalEventsInProcess = 0, TotalEventsError = 0, TotalEventsWaiting = 0,
               TotalEventsProcessable = 0, TotalEventsSystem = 0\<rparr>,
       CurrentRunningActions = 0, state = SchedulerStateRunning, mgr = no_sessions\<rparr>)"
  by (simp add: prio_first_def prio_e0_def Schedule_def previously_scheduled_def
        prepared_event_def setupEvent_def schedule_def eCopy_def NewScheduler_def
        blank_event_def no_sessions_def zeroUUID_def AppendPriority_def AList.delete_eq Let_def)





subsection \<open>One dispatch per asset and session\<close>

text \<open>
  Claim C1 says that the first \<^verbatim>\<open>Dispatch\<close> of an asset in a session succeeds.  It
  fails when the pipeline lookup fails: the asset of the event is not in the cache of
  its session, and the call returns the error of the lookup.
\<close>

theorem first_dispatch_counterexample:
  "ev_Asset example_event = Some example_asset \<and>
   ev_Session example_event = Some 0 \<and>
   Cache (sessions empty_world 0) (Asset example_asset) = None \<and>
   fst (DispatchEvent failing_dis empty_world (Some example_event)) =
     Returned (Some ''no pipeline for this asset type'')"
proof -
  have a: "ev_Asset example_event = Some example_asset"
    and b: "ev_Session example_event = Some 0"
    and c: "Cache (sessions empty_world 0) (Asset example_asset) = None"
    and d: "snd (reg failing_dis (AssetType (Asset example_asset))) =
              Some ''no pipeline for this asset type''"
    by (simp_all add: example_event_def empty_world_def empty_session_def failing_dis_def
          failing_registry_def)
  from DispatchEvent_lookup_error [OF a b c d] a b c show ?thesis by simp
qed

text \<open>
  Claim C1, amended.  Let the asset of an event not be in the cache of its session.  Then
  \<^verbatim>\<open>DispatchEvent\<close> succeeds and enqueues one element when the pipeline lookup
  succeeds, and it returns the error of the lookup when the lookup fails.  Whatever the
  lookup returns, every later \<^verbatim>\<open>DispatchEvent\<close> of an event with the same asset in the
  same session, by any dispatcher and after any further calls of \<^verbatim>\<open>DispatchEvent\<close>,
  fails with "this event has been scheduled previously" and leaves the store as it was:
  the cache, the queues and the counters.  \<^verbatim>\<open>Schedule\<close> makes the same check: it
  succeeds on an event whose asset is not in the cache of its session, and it refuses an
  event whose asset is in the cache with the same error, leaving the scheduler unchanged.
\<close>

theorem first_dispatch_wins:
  assumes "ev_Asset e = Some p" and "ev_Session e = Some sid"
    and "Cache (sessions w sid) (Asset p) = None"
    and "ev_Asset e' = Some p'" and "Asset p' = Asset p" and "ev_Session e' = Some sid"
  shows "(\<forall>ap. reg d (AssetType (Asset p)) = (Some ap, None) \<longrightarrow>
        fst (DispatchEvent d w (Some e)) = Returned None \<and>
        length (queues (snd (DispatchEvent d w (Some e))) (ap_Queue ap)) =
          Suc (length (queues w (ap_Queue ap)))) \<and>
     (\<forall>err. snd (reg d (AssetType (Asset p))) = Some err \<longrightarrow>
        fst (DispatchEvent d w (Some e)) = Returned (Some err)) \<and>
     DispatchEvent d2 (dispatch_all d1 (snd (DispatchEvent d w (Some e))) es) (Some e') =
       (Returned (Some ''this event has been scheduled previously''),
        dispatch_all d1 (snd (DispatchEvent d w (Some e))) es) \<and>
     (\<forall>s fresh now ev ad ss.
        Data ev = DataAssetData (Some ad) \<and> mgr s (SessionID ev) = Some ss \<longrightarrow>
        (Cache ss (OAMAsset ad) = None \<longrightarrow>
           fst (Schedule s fresh now (Some ev)) = Returned None) \<and>
        (Cache ss (OAMAsset ad) \<noteq> None \<longrightarrow>
           Schedule s fresh now (Some ev) =
             (Returned (Some ''this event has been scheduled previously''), Some ev, s)))"
proof (intro conjI allI impI)
  fix ap
  assume h: "reg d (AssetType (Asset p)) = (Some ap, None)"
  have run: "DispatchEvent d w (Some e) =
     (Returned None,
      incr_WorkItemsTotal
        (queue_Append (cache_SetAsset w sid p) (ap_Queue ap)
           \<lparr>ede_Event = e\<lparr>ev_Dispatcher := Some (self d)\<rparr>, ede_Error = None,
            ede_Queue = Some (completed d)\<rparr>) sid)"
    using assms(1-3) h by (rule DispatchEvent_enqueue)
  show "fst (DispatchEvent d w (Some e)) = Returned None"
    by (simp add: run)
  show "length (queues (snd (DispatchEvent d w (Some e))) (ap_Queue ap)) =
          Suc (length (queues w (ap_Queue ap)))"
    by (simp add: run incr_WorkItemsTotal_def queue_Append_def cache_SetAsset_def)
next
  fix err
  assume "snd (reg d (AssetType (Asset p))) = Some err"
  with assms(1-3) have "DispatchEvent d w (Some e) =
      (Returned (Some err), cache_SetAsset w sid p)"
    by (rule DispatchEvent_lookup_error)
  then show "fst (DispatchEvent d w (Some e)) = Returned (Some err)" by simp
next
  let ?w1 = "snd (DispatchEvent d w (Some e))"
  have "Cache (sessions ?w1 sid) (Asset p) = Some p"
    using assms(1-3) by (rule DispatchEvent_miss_cached)
  then have "Cache (sessions ?w1 sid) (Asset p) \<noteq> None" by simp
  then have "Cache (sessions (dispatch_all d1 ?w1 es) sid) (Asset p) \<noteq> None"
    by (rule dispatch_all_cache_mono)
  with assms(4-6)
  show "DispatchEvent d2 (dispatch_all d1 ?w1 es) (Some e') =
       (Returned (Some ''this event has been scheduled previously''), dispatch_all d1 ?w1 es)"
    by (intro DispatchEvent_hit [of e' p' sid]) simp_all
next
  fix s :: Scheduler and fresh now and ev :: Event and ad ss
  assume h: "Data ev = DataAssetData (Some ad) \<and> mgr s (SessionID ev) = Some ss"
  {
    assume "Cache ss (OAMAsset ad) \<noteq> None"
    with h have "previously_scheduled (mgr s (SessionID ev)) (Data ev) = Returned True"
      by (simp add: previously_scheduled_asset)
    then show "Schedule s fresh now (Some ev) =
             (Returned (Some ''this event has been scheduled previously''), Some ev, s)"
      by (rule Schedule_seen)
  }
  {
    assume miss: "Cache ss (OAMAsset ad) = None"
    with h have ok: "previously_scheduled (mgr s (SessionID ev)) (Data ev) = Returned False"
      by (simp add: previously_scheduled_asset)
    note run = Schedule_ok [OF ok, of fresh now]
    show "fst (Schedule s fresh now (Some ev)) = Returned None"
      by (simp add: run)
  }
qed

theorem first_dispatch_wins_witness:
  "fst (DispatchEvent empty_dis empty_world (Some example_event)) = Returned None \<and>
   length (queues (snd (DispatchEvent empty_dis empty_world (Some example_event))) 1) =
     Suc (length (queues empty_world 1)) \<and>
   DispatchEvent failing_dis
     (dispatch_all empty_dis (snd (DispatchEvent empty_dis empty_world (Some example_event)))
        [None, Some example_event])
     (Some example_event) =
     (Returned (Some ''this event has been scheduled previously''),
      dispatch_all empty_dis (snd (DispatchEvent empty_dis empty_world (Some example_event)))
        [None, Some example_event]) \<and>
   Schedule (NewScheduler cached_sessions) 1 100 (Some asset_event) =
     (Returned (Some ''this event has been scheduled previously''), Some asset_event,
      NewScheduler cached_sessions) \<and>
   fst (Schedule (NewScheduler fresh_sessions) 1 100 (Some asset_event)) = Returned None"
proof -
  have a: "ev_Asset example_event = Some example_asset"
    and b: "ev_Session example_event = Some 0"
    and c: "Cache (sessions empty_world 0) (Asset example_asset) = None"
    by (simp_all add: example_event_def empty_world_def empty_session_def)
  note inst = first_dispatch_wins [OF a b c a refl b,
      of empty_dis failing_dis empty_dis "[None, Some example_event]"]
  have r: "reg empty_dis (AssetType (Asset example_asset)) =
             (Some \<lparr>ap_Handlers = [], ap_Queue = 1\<rparr>, None)"
    by (simp add: empty_dis_def empty_registry_def)
  from inst r have d1: "fst (DispatchEvent empty_dis empty_world (Some example_event)) = Returned None \<and>
        length (queues (snd (DispatchEvent empty_dis empty_world (Some example_event)))
                  (ap_Queue \<lparr>ap_Handlers = [], ap_Queue = 1\<rparr>)) =
          Suc (length (queues empty_world (ap_Queue \<lparr>ap_Handlers = [], ap_Queue = 1\<rparr>)))"
    by blast
  from inst have d2: "DispatchEvent failing_dis
     (dispatch_all empty_dis (snd (DispatchEvent empty_dis empty_world (Some example_event)))
        [None, Some example_event])
     (Some example_event) =
     (Returned (Some ''this event has been scheduled previously''),
      dispatch_all empty_dis (snd (DispatchEvent empty_dis empty_world (Some example_event)))
        [None, Some example_event])"
    by blast
  let ?ad = "\<lparr>OAMAsset = Asset example_asset, OAMType = ''FQDN''\<rparr>"
  let ?cs = "empty_session\<lparr>Cache := [Asset example_asset \<mapsto> example_asset]\<rparr>"
  have hc: "Data asset_event = DataAssetData (Some ?ad) \<and>
        mgr (NewScheduler cached_sessions) (SessionID asset_event) = Some ?cs"
    by (simp add: asset_event_def blank_event_def NewScheduler_def cached_sessions_def)
  have hit: "Cache ?cs (OAMAsset ?ad) \<noteq> None" by simp
  from inst hc hit have s1: "Schedule (NewScheduler cached_sessions) 1 100 (Some asset_event) =
     (Returned (Some ''this event has been scheduled previously''), Some asset_event,
      NewScheduler cached_sessions)"
    by blast
  have hf: "Data asset_event = DataAssetData (Some ?ad) \<and>
        mgr (NewScheduler fresh_sessions) (SessionID asset_event) = Some empty_session"
    by (simp add: asset_event_def blank_event_def NewScheduler_def fresh_sessions_def)
  have miss: "Cache empty_session (OAMAsset ?ad) = None"
    by (simp add: empty_session_def)
  from inst hf miss
  have s2: "fst (Schedule (NewScheduler fresh_sessions) 1 100 (Some asset_event)) = Returned None"
    by blast
  from d1 d2 s1 s2 show ?thesis by simp
qed

subsection \<open>The scheduler: scheduling an event twice\<close>






















subsection \<open>The scheduler: evaluated scenarios\<close>

lemmas schedule_eval_defs =
  Schedule_def previously_scheduled_def prepared_event_def setupEvent_def schedule_def
  eCopy_def NewScheduler_def blank_event_def no_sessions_def zeroUUID_def AppendPriority_def
  AList.delete_eq Let_def

lemma dep_scheduled_eval:
  "dep_scheduled =
     \<lparr>q = [blank_event\<lparr>UUID := 1, Name := ''d'', Timestamp := 100, Priority := 1,
                        Action := Some DefaultAction, Sched := True\<rparr>,
            blank_event\<lparr>UUID := 2, Name := ''e'', Timestamp := 200, Priority := 2,
                        State := EventStateProcessable, DependOn := [2, 1],
                        Action := Some DefaultAction, Sched := True\<rparr>],
       events = [(1, blank_event\<lparr>UUID := 1, Name := ''d'', Timestamp := 100, Priority := 1,
                        Action := Some DefaultAction, Sched := True\<rparr>),
                 (2, blank_event\<lparr>UUID := 2, Name := ''e'', Timestamp := 200, Priority := 2,
                        State := EventStateProcessable, DependOn := [2, 1],
                        Action := Some DefaultAction, Sched := True\<rparr>)],
       stats = \<lparr>TotalEventsReceived = 2, TotalEventsDone = 0, TotalEventsCancelled = 0,
               TotalEventsInProcess = 0, TotalEventsError = 0, TotalEventsWaiting = 0,
               TotalEventsProcessable = 0, TotalEventsSystem = 0\<rparr>,
       CurrentRunningActions = 0, state = SchedulerStateRunning, mgr = no_sessions\<rparr>"
  by (simp add: dep_scheduled_def dep_d_def dep_e_def schedule_eval_defs)

lemma dep_step_eval:
  "dep_step =
     (Spawn (blank_event\<lparr>UUID := 2, Name := ''e'', Timestamp := 200, Priority := 2,
                        State := EventStateInProcess, DependOn := [2, 1],
                        Action := Some DefaultAction, Timeout := 61000000200, Sched := True\<rparr>),
      \<lparr>q = [blank_event\<lparr>UUID := 1, Name := ''d'', Timestamp := 100, Priority := 1,
                        Action := Some DefaultAction, Sched := True\<rparr>,
            blank_event\<lparr>UUID := 2, Name := ''e'', Timestamp := 200, Priority := 2,
                        State := EventStateInProcess, DependOn := [2, 1],
                        Action := Some DefaultAction, Timeout := 61000000200, Sched := True\<rparr>],
       events = [(1, blank_event\<lparr>UUID := 1, Name := ''d'', Timestamp := 100, Priority := 1,
                        Action := Some DefaultAction, Sched := True\<rparr>),
                 (2, blank_event\<lparr>UUID := 2, Name := ''e'', Timestamp := 200, Priority := 2,
                        State := EventStateInProcess, DependOn := [2, 1],
                        Action := Some DefaultAction, Timeout := 61000000200, Sched := True\<rparr>)],
       stats = \<lparr>TotalEventsReceived = 2, TotalEventsDone = 0, TotalEventsCancelled = 0,
               TotalEventsInProcess = 1, TotalEventsError = 0, TotalEventsWaiting = 0,
               TotalEventsProcessable = - 1, TotalEventsSystem = 0\<rparr>,
       CurrentRunningActions = 1, state = SchedulerStateRunning, mgr = no_sessions\<rparr>)"
  unfolding dep_step_def dep_scheduled_eval
  by (simp add: process_step_def process_event_def wrap64_def Next_def step_ready_def
        isProcessable_def
        updateSchedulerStats_def test_config_def schedule_def eCopy_def blank_event_def
        zeroUUID_def AppendPriority_def AList.delete_eq Let_def)

lemma isProcessable_self_first:
  "map_of (events s) (UUID event) = Some stored \<Longrightarrow> State stored \<noteq> EventStateDone \<Longrightarrow>
   DependOn event = UUID event # rest \<Longrightarrow> isProcessable s event"
  by (simp add: isProcessable_def)

text \<open>
  Claim C2 says that the process loop never moves an event to the state in-process while
  a dependency that is in the map is not done.  The code breaks it by a slip in
  \<^verbatim>\<open>isProcessable\<close>: the \<^verbatim>\<open>break\<close> stands outside the test that sets \<^verbatim>\<open>canProcess\<close>, so
  the loop stops at the first dependency that is not done even when it is the event's own
  UUID, and the dependencies after it are never looked at.  In the scenario \<open>e\<close> lists
  its own UUID before the UUID of \<open>d\<close>; \<open>d\<close> is in the map and waiting; the queue
  serves \<open>e\<close>, whose priority 2 is higher than the priority 1 of \<open>d\<close>, and one
  iteration of the loop moves \<open>e\<close> to in-process and starts its worker.
\<close>

theorem self_dependency_hides_unmet_dependency:
  "map_option State (map_of (events dep_scheduled) 1) = Some EventStateWaiting \<and>
   map_option Priority (map_of (events dep_scheduled) 1) = Some 1 \<and>
   map_option DependOn (map_of (events dep_scheduled) 2) = Some [2, 1] \<and>
   map_option State (map_of (events dep_scheduled) 2) = Some EventStateProcessable \<and>
   map_option Priority (map_of (events dep_scheduled) 2) = Some 2 \<and>
   map_option (UUID \<circ> fst) (Next (q dep_scheduled)) = Some 2 \<and>
   fst dep_step =
     Spawn (blank_event\<lparr>UUID := 2, Name := ''e'', Timestamp := 200, Priority := 2,
                        State := EventStateInProcess, DependOn := [2, 1],
                        Action := Some DefaultAction, Timeout := 61000000200, Sched := True\<rparr>) \<and>
   map_option State (map_of (events (snd dep_step)) 2) = Some EventStateInProcess \<and>
   map_option State (map_of (events (snd dep_step)) 1) = Some EventStateWaiting"
  unfolding dep_step_eval dep_scheduled_eval by (simp add: Next_def blank_event_def)

lemma prio_second_eval:
  "snd (snd prio_second) =
     \<lparr>q = [blank_event\<lparr>UUID := 1, Name := ''e0'', Timestamp := 100, Priority := 3,
                        Action := Some DefaultAction, Sched := True\<rparr>,
            blank_event\<lparr>UUID := 2, Name := ''e1'', Timestamp := 200, Priority := 5,
                        State := EventStateProcessable, DependOn := [1],
                        Action := Some DefaultAction, Sched := True\<rparr>],
       events = [(1, blank_event\<lparr>UUID := 1, Name := ''e0'', Timestamp := 100, Priority := 3,
                        Action := Some DefaultAction, Sched := True\<rparr>),
                 (2, blank_event\<lparr>UUID := 2, Name := ''e1'', Timestamp := 200, Priority := 5,
                        State := EventStateProcessable, DependOn := [1],
                        Action := Some DefaultAction, Sched := True\<rparr>)],
       stats = \<lparr>TotalEventsReceived = 2, TotalEventsDone = 0, TotalEventsCancelled = 0,
               TotalEventsInProcess = 0, TotalEventsError = 0, TotalEventsWaiting = 0,
               TotalEventsProcessable = 0, TotalEventsSystem = 0\<rparr>,
       CurrentRunningActions = 0, state = SchedulerStateRunning, mgr = no_sessions\<rparr>"
  unfolding prio_second_def prio_first_eval
  by (simp add: prio_e1_def Schedule_def previously_scheduled_def
        prepared_event_def setupEvent_def schedule_def eCopy_def
        blank_event_def no_sessions_def zeroUUID_def AppendPriority_def AList.delete_eq Let_def)

text \<open>
  Claim C5 says that cancelling \<open>e0\<close>, on which \<open>e1\<close> depends, removes both events and
  adds 2 to \<^verbatim>\<open>TotalEventsCancelled\<close>.  Both events are removed, but the counter grows by
  1: \<^verbatim>\<open>Cancel\<close> writes the state of its target without \<^verbatim>\<open>updateSchedulerStats\<close>, and
  only the dependent \<open>e1\<close> is counted (its former state, processable, is counted down
  to \<open>- 1\<close>).
\<close>

theorem Cancel_counts_one:
  "map_option DependOn (map_of (events (snd (snd prio_second))) 2) = Some [1] \<and>
   map_of (events (snd (snd prio_second))) 1 \<noteq> None \<and>
   events (Cancel (snd (snd prio_second)) 1) = [] \<and>
   TotalEventsCancelled (stats (Cancel (snd (snd prio_second)) 1)) =
     TotalEventsCancelled (stats (snd (snd prio_second))) + 1 \<and>
   TotalEventsProcessable (stats (Cancel (snd (snd prio_second)) 1)) = - 1"
  unfolding prio_second_eval
  by (simp add: Cancel_def removeEventAndDeps_def updateSchedulerStats_def blank_event_def
        AList.delete_eq Let_def)

lemma life_scheduled_eval:
  "life_scheduled =
     \<lparr>q = [blank_event\<lparr>UUID := 1, Timestamp := 100, Priority := 1,
                        Action := Some DefaultAction, Sched := True\<rparr>],
       events = [(1, blank_event\<lparr>UUID := 1, Timestamp := 100, Priority := 1,
                        Action := Some DefaultAction, Sched := True\<rparr>)],
       stats = \<lparr>TotalEventsReceived = 1, TotalEventsDone = 0, TotalEventsCancelled = 0,
               TotalEventsInProcess = 0, TotalEventsError = 0, TotalEventsWaiting = 0,
               TotalEventsProcessable = 0, TotalEventsSystem = 0\<rparr>,
       CurrentRunningActions = 0, state = SchedulerStateRunning, mgr = no_sessions\<rparr>"
  by (simp add: life_scheduled_def schedule_eval_defs)

lemma life_started_eval:
  "life_started =
     (Spawn (blank_event\<lparr>UUID := 1, Timestamp := 100, Priority := 1,
                        State := EventStateInProcess,
                        Action := Some DefaultAction, Timeout := 60000001000, Sched := True\<rparr>),
      \<lparr>q = [blank_event\<lparr>UUID := 1, Timestamp := 100, Priority := 1,
                        State := EventStateInProcess,
                        Action := Some DefaultAction, Timeout := 60000001000, Sched := True\<rparr>],
       events = [(1, blank_event\<lparr>UUID := 1, Timestamp := 100, Priority := 1,
                        State := EventStateInProcess,
                        Action := Some DefaultAction, Timeout := 60000001000, Sched := True\<rparr>)],
       stats = \<lparr>TotalEventsReceived = 1, TotalEventsDone = 0, TotalEventsCancelled = 0,
               TotalEventsInProcess = 1, TotalEventsError = 0, TotalEventsWaiting = - 1,
               TotalEventsProcessable = 0, TotalEventsSystem = 0\<rparr>,
       CurrentRunningActions = 1, state = SchedulerStateRunning, mgr = no_sessions\<rparr>)"
  unfolding life_started_def life_scheduled_eval
  by (simp add: process_step_def process_event_def wrap64_def Next_def step_ready_def
        isProcessable_def
        updateSchedulerStats_def test_config_def schedule_def eCopy_def blank_event_def
        zeroUUID_def AppendPriority_def AList.delete_eq Let_def)

lemma life_done_eval:
  "life_done =
      \<lparr>q = [blank_event\<lparr>UUID := 1, Timestamp := 100, Priority := 1,
                        State := EventStateInProcess,
                        Action := Some DefaultAction, Timeout := 60000001000, Sched := True\<rparr>],
       events = [(1, blank_event\<lparr>UUID := 1, Timestamp := 100, Priority := 1,
                        State := EventStateDone,
                        Action := Some DefaultAction, Timeout := 60000001000, Sched := True\<rparr>)],
       stats = \<lparr>TotalEventsReceived = 1, TotalEventsDone = 1, TotalEventsCancelled = 0,
               TotalEventsInProcess = 0, TotalEventsError = 0, TotalEventsWaiting = - 1,
               TotalEventsProcessable = 0, TotalEventsSystem = 0\<rparr>,
       CurrentRunningActions = 0, state = SchedulerStateRunning, mgr = no_sessions\<rparr>"
  unfolding life_done_def life_started_eval
  by (simp add: SetEventState_def updateSchedulerStats_def terminal_state_def blank_event_def
        Let_def)

lemma life_removed_eval:
  "life_removed =
     (Continue,
      \<lparr>q = [], events = [],
       stats = \<lparr>TotalEventsReceived = 1, TotalEventsDone = 1, TotalEventsCancelled = 0,
               TotalEventsInProcess = 0, TotalEventsError = 0, TotalEventsWaiting = - 1,
               TotalEventsProcessable = 0, TotalEventsSystem = 0\<rparr>,
       CurrentRunningActions = 0, state = SchedulerStateRunning, mgr = no_sessions\<rparr>)"
  unfolding life_removed_def life_done_eval
  by (simp add: process_step_def process_event_def Next_def reschedule_def test_config_def
        blank_event_def
        AList.delete_eq Let_def)

lemma life_end_eval: "life_end = (Return, snd life_removed)"
  unfolding life_end_def life_removed_eval
  by (simp add: process_step_def Next_def test_config_def)

text \<open>
  Claim C4 says that, whenever no event is in process and the loop is idle, the number of
  received events is the sum of the six state counters.  The code breaks it:
  \<^verbatim>\<open>Schedule\<close> counts the event as received and counts its initial state nowhere.
  After one \<^verbatim>\<open>Schedule\<close> on a new scheduler one event is received and the six counters
  sum to 0.  After the whole life of that event (started, set to done by its action,
  removed by the loop, the loop returned on the empty queue) one event is received, one
  is done, and the waiting counter is \<open>- 1\<close>: the sum is still 0.
\<close>

theorem counters_inconsistent:
  "fst prio_first = Returned None \<and>
   map_option State (map_of (events (snd (snd prio_first))) 1) = Some EventStateWaiting \<and>
   CurrentRunningActions (snd (snd prio_first)) = 0 \<and>
   TotalEventsReceived (stats (snd (snd prio_first))) = 1 \<and>
   state_counters (stats (snd (snd prio_first))) = 0 \<and>
   fst life_end = Return \<and> q (snd life_end) = [] \<and> events (snd life_end) = [] \<and>
   CurrentRunningActions (snd life_end) = 0 \<and>
   TotalEventsReceived (stats (snd life_end)) = 1 \<and>
   TotalEventsDone (stats (snd life_end)) = 1 \<and>
   TotalEventsWaiting (stats (snd life_end)) = - 1 \<and>
   state_counters (stats (snd life_end)) = 0"
proof -
  have a: "fst prio_first = Returned None \<and>
     map_option State (map_of (events (snd (snd prio_first))) 1) = Some EventStateWaiting \<and>
     CurrentRunningActions (snd (snd prio_first)) = 0 \<and>
     TotalEventsReceived (stats (snd (snd prio_first))) = 1 \<and>
     state_counters (stats (snd (snd prio_first))) = 0"
    unfolding prio_first_eval by (simp add: state_counters_def blank_event_def)
  have b: "fst life_end = Return \<and> q (snd life_end) = [] \<and> events (snd life_end) = [] \<and>
     CurrentRunningActions (snd life_end) = 0 \<and>
     TotalEventsReceived (stats (snd life_end)) = 1 \<and>
     TotalEventsDone (stats (snd life_end)) = 1 \<and>
     TotalEventsWaiting (stats (snd life_end)) = - 1 \<and>
     state_counters (stats (snd life_end)) = 0"
    unfolding life_end_eval unfolding life_removed_eval by (simp add: state_counters_def)
  from a b show ?thesis by blast
qed


end
